theory Spec2Isabelle
  imports Complex_Main
begin

section \<open>The page script \<^verbatim>\<open>static/js/script.js\<close>\<close>

text \<open>
  The script binds six anonymous handlers in a \<^verbatim>\<open>$(document).ready\<close> callback.
  Each handler is embedded as a function from the part of the document it reads and
  writes to that part after the handler has run. What a handler shows to the user
  (\<^verbatim>\<open>alert\<close>) is a log of messages carried in the state.
\<close>

subsection \<open>Document elements and the jQuery operations the script calls\<close>

text \<open>
  A \<^verbatim>\<open>File\<close> of a file input: the script reads \<^verbatim>\<open>file.name\<close> and
  \<^verbatim>\<open>file.size\<close> (a number of bytes).
\<close>

record jsfile =
  name :: string
  size_bytes :: nat

text \<open>
  An element, with the attributes and properties the handlers touch: the local name
  (\<^verbatim>\<open>button\<close>, \<^verbatim>\<open>input\<close>, ..., in lower case in an HTML document), the content
  attributes (\<^verbatim>\<open>attr\<close>), the tokens of the \<^verbatim>\<open>class\<close> attribute in their order,
  the \<^verbatim>\<open>disabled\<close> property, the markup inside the element (\<^verbatim>\<open>html\<close>), the
  \<^verbatim>\<open>value\<close> property and, for a file input, the selected files.
\<close>

record element =
  localName :: string
  attributes :: "string \<rightharpoonup> string"
  classList :: "string list"
  disabled :: bool
  innerHTML :: string
  val :: string
  files :: "jsfile list"

text \<open>\<^verbatim>\<open>.hasClass(c)\<close>, \<^verbatim>\<open>.addClass(c)\<close> and \<^verbatim>\<open>.removeClass(c)\<close> on one element:
  adding appends the token unless it is there, removing deletes every occurrence.\<close>

definition hasClass :: "string \<Rightarrow> element \<Rightarrow> bool" where
  "hasClass c e = (c \<in> set (classList e))"

definition addClass :: "string \<Rightarrow> element \<Rightarrow> element" where
  "addClass c e = (if hasClass c e then e else e\<lparr>classList := classList e @ [c]\<rparr>)"

definition removeClass :: "string \<Rightarrow> element \<Rightarrow> element" where
  "removeClass c e = e\<lparr>classList := removeAll c (classList e)\<rparr>"

text \<open>\<^verbatim>\<open>.toggleClass(names)\<close> on one element: the names, already split at the blanks,
  are toggled one after the other, each on the element as the previous one left it.\<close>

definition toggle1 :: "string \<Rightarrow> element \<Rightarrow> element" where
  "toggle1 c e = (if hasClass c e then removeClass c e else addClass c e)"

definition toggleClass :: "string list \<Rightarrow> element \<Rightarrow> element" where
  "toggleClass names e = fold toggle1 names e"






subsection \<open>Strings\<close>

text \<open>
  A string is the list of the bytes of its UTF-8 encoding, so a letter outside ASCII is
  a sequence of bytes from 128 on. Folding the letters \<^verbatim>\<open>A\<close> to \<^verbatim>\<open>Z\<close> to lower
  case and leaving every other byte as it is, is the ASCII case folding of HTML.
\<close>

definition lower_letters :: string where
  "lower_letters = ''abcdefghijklmnopqrstuvwxyz''"

definition upper_letters :: string where
  "upper_letters = ''ABCDEFGHIJKLMNOPQRSTUVWXYZ''"

definition lower_char :: "char \<Rightarrow> char" where
  "lower_char c = (case map_of (zip upper_letters lower_letters) c of Some l \<Rightarrow> l | None \<Rightarrow> c)"

text \<open>
  \<^verbatim>\<open>s.toLowerCase()\<close>, as far as the script uses it, which is to compare the result
  with \<^verbatim>\<open>xlsx\<close> and \<^verbatim>\<open>xls\<close>. The built-in also changes letters outside ASCII, but
  it maps no character outside ASCII to \<^verbatim>\<open>x\<close>, \<^verbatim>\<open>l\<close> or \<^verbatim>\<open>s\<close>, so the
  comparison comes out as with the built-in.
  \<^verbatim>\<open>s.toUpperCase()\<close>, whose result is stored as it is, is not modelled: it maps the
  letters of every alphabet and can change the length of a string, and the handler that
  calls it takes the built-in as a parameter.
\<close>

definition toLowerCase :: "string \<Rightarrow> string" where
  "toLowerCase s = map lower_char s"


text \<open>\<^verbatim>\<open>s.split(d)\<close> for a one-character separator: the pieces between the
  separators, in order; the empty string gives one empty piece.\<close>

fun split :: "char \<Rightarrow> string \<Rightarrow> string list" where
  "split d [] = [[]]"
| "split d (c # cs) =
     (if c = d then [] # split d cs
      else (case split d cs of [] \<Rightarrow> [[c]] | s # ss \<Rightarrow> (c # s) # ss))"

text \<open>\<^verbatim>\<open>a.pop()\<close> read for its value: the last element, \<^verbatim>\<open>undefined\<close> on an empty
  array. \<^verbatim>\<open>a.indexOf(x)\<close>: the first index of \<open>x\<close>, or \<open>-1\<close>.\<close>

definition pop :: "'a list \<Rightarrow> 'a option" where
  "pop xs = (if xs = [] then None else Some (last xs))"

fun indexOf_from :: "int \<Rightarrow> 'a list \<Rightarrow> 'a \<Rightarrow> int" where
  "indexOf_from i [] x = - 1"
| "indexOf_from i (y # ys) x = (if y = x then i else indexOf_from (i + 1) ys x)"

definition indexOf :: "'a list \<Rightarrow> 'a \<Rightarrow> int" where
  "indexOf xs x = indexOf_from 0 xs x"

subsection \<open>File upload validation (the \<^verbatim>\<open>change\<close> handler of file inputs)\<close>

text \<open>
  The state the handler works on: the file input it is bound to (\<^verbatim>\<open>this\<close>) and the
  messages shown by \<^verbatim>\<open>alert\<close> so far, oldest first. A method call on
  \<^verbatim>\<open>undefined\<close> raises a \<^verbatim>\<open>TypeError\<close>, which ends the handler.
\<close>

datatype js_error = TypeError

record upload =
  input :: element
  alerts :: "string list"

definition alert :: "string \<Rightarrow> upload \<Rightarrow> upload" where
  "alert msg s = s\<lparr>alerts := alerts s @ [msg]\<rparr>"

text \<open>\<^verbatim>\<open>this.value = ''\<close> on a file input: the browser empties the list of selected
  files together with the value.\<close>

definition clear_value :: "upload \<Rightarrow> upload" where
  "clear_value s = s\<lparr>input := (input s)\<lparr>val := [], files := []\<rparr>\<rparr>"

definition size_msg :: string where
  "size_msg = ''File size exceeds 10MB limit. Please choose a smaller file.''"

definition ext_msg :: string where
  "ext_msg = ''Please select an Excel file (xlsx or xls format).''"

text \<open>\<^verbatim>\<open>file.size / 1024 / 1024\<close>. The JavaScript quotient is a double; dividing an
  integer below \<open>2^53\<close> by a power of two is exact there, so the quotient is the real one.\<close>

definition fileSize :: "jsfile \<Rightarrow> real" where
  "fileSize file = real (size_bytes file) / 1024 / 1024"

text \<open>\<^verbatim>\<open>file.name.split('.').pop().toLowerCase()\<close>\<close>

definition extension :: "jsfile \<Rightarrow> js_error + string" where
  "extension file =
     (case pop (split CHR ''.'' (name file)) of
        None \<Rightarrow> Inl TypeError
      | Some seg \<Rightarrow> Inr (toLowerCase seg))"

text \<open>The two \<^verbatim>\<open>if\<close> statements of the handler, on the file read before either.\<close>

definition size_check :: "jsfile \<Rightarrow> upload \<Rightarrow> upload" where
  "size_check file s = (if fileSize file > 10 then clear_value (alert size_msg s) else s)"

definition ext_check :: "jsfile \<Rightarrow> upload \<Rightarrow> js_error + upload" where
  "ext_check file s =
     (case extension file of
        Inl err \<Rightarrow> Inl err
      | Inr ext \<Rightarrow>
          if indexOf [''xlsx'', ''xls''] ext = - 1
          then Inr (clear_value (alert ext_msg s))
          else Inr s)"

text \<open>The handler: \<^verbatim>\<open>this.files[0]\<close> is \<^verbatim>\<open>undefined\<close> when no file is selected, and
  then nothing runs.\<close>

definition file_change :: "upload \<Rightarrow> js_error + upload" where
  "file_change s =
     (case files (input s) of
        [] \<Rightarrow> Inr s
      | file # _ \<Rightarrow> ext_check file (size_check file s))"

subsection \<open>Sidebar toggle (the \<^verbatim>\<open>click\<close> handler of \<^verbatim>\<open>#sidebarCollapse\<close>)\<close>

text \<open>The two elements \<^verbatim>\<open>$('#sidebar, #content')\<close> selects.\<close>

record layout =
  sidebar :: element
  content :: element

definition sidebarCollapse_click :: "layout \<Rightarrow> layout" where
  "sidebarCollapse_click p =
     p\<lparr>sidebar := toggleClass [''collapsed''] (sidebar p),
       content := toggleClass [''collapsed''] (content p)\<rparr>"

subsection \<open>DataTables initialisation (\<^verbatim>\<open>$('table').each\<close>)\<close>

text \<open>
  The DataTables plug-in is not part of the script, so it is a parameter: the query
  \<^verbatim>\<open>$.fn.DataTable.isDataTable\<close> and the call \<^verbatim>\<open>.DataTable(options)\<close>, both on
  what the plug-in keeps for one table (\<open>'w\<close>). A table carries the options of every
  \<^verbatim>\<open>.DataTable\<close> call the script has made on it, oldest first.
\<close>

datatype menu_label = Num int | Label string

record dt_options =
  pageLength :: int
  lengthMenu :: "int list \<times> menu_label list"
  responsive :: bool

record 'w datatables =
  isDataTable :: "'w \<Rightarrow> bool"
  DataTable :: "dt_options \<Rightarrow> 'w \<Rightarrow> 'w"

record 'w table =
  widget :: 'w
  enhancements :: "dt_options list"

definition table_options :: dt_options where
  "table_options =
     \<lparr>pageLength = 10,
      lengthMenu = ([10, 25, 50, 100, - 1], [Num 10, Num 25, Num 50, Num 100, Label ''All'']),
      responsive = True\<rparr>"

definition init_table :: "'w datatables \<Rightarrow> 'w table \<Rightarrow> 'w table" where
  "init_table lib t =
     (if \<not> isDataTable lib (widget t)
      then t\<lparr>widget := DataTable lib table_options (widget t),
             enhancements := enhancements t @ [table_options]\<rparr>
      else t)"

definition init_tables :: "'w datatables \<Rightarrow> 'w table list \<Rightarrow> 'w table list" where
  "init_tables lib tables = map (init_table lib) tables"

subsection \<open>Insurance code inputs (the \<^verbatim>\<open>input\<close> handler)\<close>

text \<open>\<^verbatim>\<open>this.value = this.value.toUpperCase()\<close>, with the built-in
  \<^verbatim>\<open>String.prototype.toUpperCase\<close> as the first argument.\<close>

definition insuranceCode_input :: "(string \<Rightarrow> string) \<Rightarrow> element \<Rightarrow> element" where
  "insuranceCode_input toUpperCase this = this\<lparr>val := toUpperCase (val this)\<rparr>"

subsection \<open>Form submission (the \<^verbatim>\<open>submit\<close> handler of forms)\<close>




subsection \<open>Password visibility (the \<^verbatim>\<open>click\<close> handler of \<^verbatim>\<open>.toggle-password\<close>)\<close>



subsection \<open>Example elements\<close>

text \<open>An element with nothing set, a file input holding given files, and the size unit of
  the examples.\<close>

definition blank :: element where
  "blank = \<lparr>localName = [], attributes = Map.empty, classList = [], disabled = False,
     innerHTML = [], val = [], files = []\<rparr>"

definition file_input :: "jsfile list \<Rightarrow> element" where
  "file_input fs =
     blank\<lparr>localName := ''input'', attributes := [''type'' \<mapsto> ''file''],
       val := (case fs of [] \<Rightarrow> [] | f # _ \<Rightarrow> name f), files := fs\<rparr>"

definition MiB :: nat where
  "MiB = 1024 * 1024"

text \<open>Elements of the examples: a \<^verbatim>\<open>div\<close> and an \<^verbatim>\<open>i\<close> with given classes, an
  \<^verbatim>\<open>input\<close> and a \<^verbatim>\<open>button\<close> with a given \<^verbatim>\<open>type\<close>.\<close>

definition div_with :: "string list \<Rightarrow> element" where
  "div_with cs = blank\<lparr>localName := ''div'', classList := cs\<rparr>"




text \<open>What \<^verbatim>\<open>toUpperCase\<close> does on ASCII text, for the examples: the letters
  \<^verbatim>\<open>a\<close> to \<^verbatim>\<open>z\<close> become \<^verbatim>\<open>A\<close> to \<^verbatim>\<open>Z\<close>.\<close>

definition upper_char :: "char \<Rightarrow> char" where
  "upper_char c = (case map_of (zip lower_letters upper_letters) c of Some u \<Rightarrow> u | None \<Rightarrow> c)"

definition ascii_toUpperCase :: "string \<Rightarrow> string" where
  "ascii_toUpperCase s = map upper_char s"


text \<open>A plug-in that keeps one flag per table, set by \<^verbatim>\<open>.DataTable\<close> and read by
  \<^verbatim>\<open>isDataTable\<close>.\<close>

definition stub_datatables :: "bool datatables" where
  "stub_datatables = \<lparr>isDataTable = (\<lambda>w. w), DataTable = (\<lambda>opts w. True)\<rparr>"

section \<open>Properties\<close>

subsection \<open>Splitting a name and searching an array\<close>

lemma split_not_Nil: "split d s \<noteq> []"
  by (induction s) (auto split: list.splits)

lemma split_no_sep: "d \<notin> set s \<Longrightarrow> split d s = [s]"
  by (induction s) auto

lemma split_sep_two: "d \<in> set s \<Longrightarrow> \<exists>a b rest. split d s = a # b # rest"
proof (induction s)
  case Nil
  then show ?case by simp
next
  case (Cons c cs)
  show ?case
  proof (cases "c = d")
    case True
    then show ?thesis using split_not_Nil [of d cs] by (cases "split d cs") auto
  next
    case False
    with Cons.prems have "d \<in> set cs" by simp
    from Cons.IH [OF this] obtain a b rest where "split d cs = a # b # rest" by blast
    with False show ?thesis by simp
  qed
qed

lemma last_split_Cons: "d \<in> set cs \<Longrightarrow> last (split d (c # cs)) = last (split d cs)"
proof -
  assume "d \<in> set cs"
  from split_sep_two [OF this] obtain a b rest where "split d cs = a # b # rest" by blast
  then show ?thesis by simp
qed

lemma last_split_append: "d \<notin> set suf \<Longrightarrow> last (split d (pre @ d # suf)) = suf"
proof (induction pre)
  case Nil
  then show ?case by (simp add: split_no_sep)
next
  case (Cons c pre)
  have "d \<in> set (pre @ d # suf)" by simp
  then have "last (split d (c # pre @ d # suf)) = last (split d (pre @ d # suf))"
    by (rule last_split_Cons)
  with Cons show ?case by simp
qed

lemma pop_split: "\<exists>seg. pop (split d s) = Some seg"
  by (simp add: pop_def split_not_Nil)

lemma extension_total: "\<exists>ext. extension file = Inr ext"
  using pop_split [of "CHR ''.''" "name file"] by (auto simp: extension_def)

lemma extension_dotted:
  "name file = pre @ CHR ''.'' # suf \<Longrightarrow> CHR ''.'' \<notin> set suf \<Longrightarrow> extension file = Inr (toLowerCase suf)"
  by (simp add: extension_def pop_def split_not_Nil last_split_append)

lemma extension_dotless:
  "CHR ''.'' \<notin> set (name file) \<Longrightarrow> extension file = Inr (toLowerCase (name file))"
  by (simp add: extension_def pop_def split_no_sep)

lemma indexOf_from_eq: "0 \<le> i \<Longrightarrow> (indexOf_from i xs x = - 1) = (x \<notin> set xs)"
  by (induction xs arbitrary: i) auto

lemma indexOf_eq: "(indexOf xs x = - 1) = (x \<notin> set xs)"
  by (simp add: indexOf_def indexOf_from_eq)

subsection \<open>The steps of the file upload handler\<close>

lemma ext_check_invalid:
  "extension file = Inr ext \<Longrightarrow> ext \<notin> {''xlsx'', ''xls''} \<Longrightarrow>
     ext_check file s = Inr (clear_value (alert ext_msg s))"
  by (simp add: ext_check_def indexOf_eq)

lemma ext_check_valid:
  "extension file = Inr ext \<Longrightarrow> ext \<in> {''xlsx'', ''xls''} \<Longrightarrow> ext_check file s = Inr s"
  by (auto simp add: ext_check_def indexOf_eq)

lemma alerts_clear_alert: "alerts (clear_value (alert msg s)) = alerts s @ [msg]"
  by (simp add: clear_value_def alert_def)

lemma input_clear_value:
  "files (input (clear_value s)) = []" "val (input (clear_value s)) = []"
  by (simp_all add: clear_value_def)

lemma clear_alert_neq: "clear_value (alert msg s) \<noteq> s"
proof
  assume "clear_value (alert msg s) = s"
  then have "alerts (clear_value (alert msg s)) = alerts s" by simp
  then show False by (simp add: alerts_clear_alert)
qed

lemma fileSize_gt: "(fileSize file > 10) = (size_bytes file > 10485760)"
  by (simp add: fileSize_def field_simps)

lemma file_change_some:
  "files (input s) = file # rest \<Longrightarrow> file_change s = ext_check file (size_check file s)"
  by (simp add: file_change_def)

lemma size_check_over:
  "fileSize file > 10 \<Longrightarrow> size_check file s = clear_value (alert size_msg s)"
  by (simp add: size_check_def)

lemma size_check_within:
  "\<not> fileSize file > 10 \<Longrightarrow> size_check file s = s"
  by (simp add: size_check_def)

lemma ext_check_keeps_cleared:
  "ext_check file s = Inr s' \<Longrightarrow> files (input s) = [] \<Longrightarrow> val (input s) = [] \<Longrightarrow>
     files (input s') = [] \<and> val (input s') = []"
  by (auto simp: ext_check_def clear_value_def split: sum.splits if_splits)

lemma ext_check_alerts:
  "ext_check file s = Inr s' \<Longrightarrow> alerts s' = alerts s \<or> alerts s' = alerts s @ [ext_msg]"
  by (auto simp: ext_check_def clear_value_def alert_def split: sum.splits if_splits)

lemma ext_check_total: "\<exists>s'. ext_check file s = Inr s'"
  using extension_total [of "file"] by (auto simp: ext_check_def)

subsection \<open>File upload validation\<close>

text \<open>
  C1. The two checks run on the same selected file and the second one does not depend on
  the first: for a file that is over the size limit and has an extension other than
  \<^verbatim>\<open>xlsx\<close> and \<^verbatim>\<open>xls\<close>, the size check shows the size message and clears the
  selection, the extension check then still runs on the cleared input, shows the
  extension message and clears again; the handler ends with exactly these two new
  messages, the size message first, and an empty selection.
\<close>
theorem file_change_both_checks:
  assumes "files (input s) = file # rest"
    and "fileSize file > 10"
    and "extension file = Inr ext"
    and "ext \<notin> {''xlsx'', ''xls''}"
  shows "alerts (size_check file s) = alerts s @ [size_msg]
    \<and> files (input (size_check file s)) = [] \<and> val (input (size_check file s)) = []
    \<and> ext_check file (size_check file s) = Inr (clear_value (alert ext_msg (size_check file s)))
    \<and> file_change s =
        Inr \<lparr>input = (input s)\<lparr>val := [], files := []\<rparr>, alerts = alerts s @ [size_msg, ext_msg]\<rparr>"
proof -
  let ?s1 = "size_check file s"
  have s1: "?s1 = clear_value (alert size_msg s)"
    using assms(2) by (rule size_check_over)
  have e: "ext_check file ?s1 = Inr (clear_value (alert ext_msg ?s1))"
    using assms(3,4) by (rule ext_check_invalid)
  have "clear_value (alert ext_msg ?s1) =
      \<lparr>input = (input s)\<lparr>val := [], files := []\<rparr>, alerts = alerts s @ [size_msg, ext_msg]\<rparr>"
    unfolding s1 by (simp add: clear_value_def alert_def)
  with e have "file_change s =
      Inr \<lparr>input = (input s)\<lparr>val := [], files := []\<rparr>, alerts = alerts s @ [size_msg, ext_msg]\<rparr>"
    using assms(1) by (simp add: file_change_some)
  then show ?thesis
    using e by (simp add: s1 alerts_clear_alert input_clear_value)
qed

theorem file_change_both_checks_witness:
  "file_change \<lparr>input = file_input [\<lparr>name = ''report.docx'', size_bytes = 15 * MiB\<rparr>], alerts = []\<rparr> =
     Inr \<lparr>input = file_input [], alerts = [size_msg, ext_msg]\<rparr>"
proof -
  let ?f = "\<lparr>name = ''report.docx'', size_bytes = 15 * MiB\<rparr>"
  have 1: "files (input \<lparr>input = file_input [?f], alerts = []\<rparr>) = ?f # []"
    by (simp add: file_input_def)
  have 2: "fileSize ?f > 10"
    by (simp add: fileSize_def MiB_def)
  have 3: "extension ?f = Inr ''docx''"
    by (simp add: extension_def pop_def toLowerCase_def lower_char_def upper_letters_def
        lower_letters_def)
  have 4: "''docx'' \<notin> {''xlsx'', ''xls''}"
    by simp
  show ?thesis
    using file_change_both_checks [OF 1 2 3 4] by (simp add: file_input_def)
qed

text \<open>
  C2. When a file is selected and its size in bytes, divided by 1024 and by 1024 again,
  is strictly greater than 10, the handler shows the size message and leaves the
  selection cleared. A file of exactly 10 MiB passes the size check unchanged.
\<close>
theorem file_change_size_limit:
  assumes "files (input s) = file # rest"
  shows "(real (size_bytes file) / 1024 / 1024 > 10 \<longrightarrow>
           (\<exists>s' later. file_change s = Inr s' \<and> alerts s' = alerts s @ size_msg # later
              \<and> files (input s') = [] \<and> val (input s') = []))
       \<and> (size_bytes file = 10 * 1024 * 1024 \<longrightarrow> size_check file s = s)"
proof (intro conjI impI)
  assume "real (size_bytes file) / 1024 / 1024 > 10"
  then have over: "fileSize file > 10" by (simp add: fileSize_def)
  let ?s1 = "size_check file s"
  have s1: "?s1 = clear_value (alert size_msg s)"
    using over by (rule size_check_over)
  obtain s' where s': "ext_check file ?s1 = Inr s'"
    using ext_check_total by blast
  have a1: "alerts ?s1 = alerts s @ [size_msg]"
    by (simp add: s1 alerts_clear_alert)
  from ext_check_alerts [OF s'] a1
  have "\<exists>later. alerts s' = alerts s @ size_msg # later"
    by auto
  moreover have "files (input s') = [] \<and> val (input s') = []"
    using s' by (rule ext_check_keeps_cleared) (simp_all add: s1 input_clear_value)
  moreover have "file_change s = Inr s'"
    using assms s' by (simp add: file_change_some)
  ultimately show "\<exists>s' later. file_change s = Inr s' \<and> alerts s' = alerts s @ size_msg # later
      \<and> files (input s') = [] \<and> val (input s') = []"
    by blast
next
  assume "size_bytes file = 10 * 1024 * 1024"
  then show "size_check file s = s"
    by (simp add: size_check_def fileSize_def)
qed

theorem file_change_size_limit_witness:
  "(\<exists>s' later. file_change \<lparr>input = file_input [\<lparr>name = ''claims.xls'', size_bytes = 12 * MiB\<rparr>], alerts = []\<rparr> = Inr s'
       \<and> alerts s' = size_msg # later \<and> files (input s') = [] \<and> val (input s') = [])
   \<and> size_check \<lparr>name = ''claims.xls'', size_bytes = 10 * MiB\<rparr> \<lparr>input = file_input [\<lparr>name = ''claims.xls'', size_bytes = 10 * MiB\<rparr>], alerts = []\<rparr>
       = \<lparr>input = file_input [\<lparr>name = ''claims.xls'', size_bytes = 10 * MiB\<rparr>], alerts = []\<rparr>"
proof -
  let ?big = "\<lparr>name = ''claims.xls'', size_bytes = 12 * MiB\<rparr>"
  let ?ten = "\<lparr>name = ''claims.xls'', size_bytes = 10 * MiB\<rparr>"
  have 1: "files (input \<lparr>input = file_input [?big], alerts = []\<rparr>) = ?big # []"
    by (simp add: file_input_def)
  have 2: "files (input \<lparr>input = file_input [?ten], alerts = []\<rparr>) = ?ten # []"
    by (simp add: file_input_def)
  show ?thesis
    using file_change_size_limit [OF 1] file_change_size_limit [OF 2]
    by (simp add: MiB_def)
qed

text \<open>
  C3. When a file is selected whose name ends in a dot followed by a dot-free suffix, and
  the lower-cased suffix is neither \<^verbatim>\<open>xlsx\<close> nor \<^verbatim>\<open>xls\<close>, the handler shows the
  extension message (as the last message) and leaves the selection cleared.
\<close>
theorem file_change_extension:
  assumes "files (input s) = file # rest"
    and "name file = pre @ CHR ''.'' # suf"
    and "CHR ''.'' \<notin> set suf"
    and "toLowerCase suf \<notin> {''xlsx'', ''xls''}"
  shows "file_change s = Inr (clear_value (alert ext_msg (size_check file s)))
    \<and> alerts (clear_value (alert ext_msg (size_check file s))) = alerts (size_check file s) @ [ext_msg]
    \<and> files (input (clear_value (alert ext_msg (size_check file s)))) = []
    \<and> val (input (clear_value (alert ext_msg (size_check file s)))) = []"
proof -
  have "extension file = Inr (toLowerCase suf)"
    using assms(2,3) by (rule extension_dotted)
  then have "ext_check file (size_check file s) = Inr (clear_value (alert ext_msg (size_check file s)))"
    using assms(4) by (rule ext_check_invalid)
  then show ?thesis
    using assms(1) by (simp add: file_change_some alerts_clear_alert input_clear_value)
qed

theorem file_change_extension_witness:
  "file_change \<lparr>input = file_input [\<lparr>name = ''scan.v2.PDF'', size_bytes = 2 * MiB\<rparr>], alerts = []\<rparr> =
     Inr \<lparr>input = file_input [], alerts = [ext_msg]\<rparr>"
proof -
  let ?f = "\<lparr>name = ''scan.v2.PDF'', size_bytes = 2 * MiB\<rparr>"
  have 1: "files (input \<lparr>input = file_input [?f], alerts = []\<rparr>) = ?f # []"
    by (simp add: file_input_def)
  have 2: "name ?f = ''scan.v2'' @ CHR ''.'' # ''PDF''"
    by simp
  have 3: "CHR ''.'' \<notin> set ''PDF''"
    by simp
  have 4: "toLowerCase ''PDF'' \<notin> {''xlsx'', ''xls''}"
    by (simp add: toLowerCase_def lower_char_def upper_letters_def lower_letters_def)
  show ?thesis
    using file_change_extension [OF 1 2 3 4]
    by (simp add: file_input_def size_check_def fileSize_def MiB_def clear_value_def alert_def)
qed

text \<open>
  C4. With no file selected the handler changes nothing and shows nothing. With a selected
  file of at most 10 MiB whose extension is \<^verbatim>\<open>xlsx\<close> or \<^verbatim>\<open>xls\<close> it changes
  nothing either: no message, and the input keeps its value and its files. A message is
  shown only for a selected file that is too large or has another extension.
\<close>
theorem file_change_frame:
  "(files (input s) = [] \<longrightarrow> file_change s = Inr s)
   \<and> (files (input s) = file # rest \<and> \<not> real (size_bytes file) / 1024 / 1024 > 10
        \<and> extension file \<in> {Inr ''xlsx'', Inr ''xls''} \<longrightarrow> file_change s = Inr s)
   \<and> (file_change s = Inr s' \<and> alerts s' \<noteq> alerts s \<longrightarrow>
        (\<exists>file rest. files (input s) = file # rest
           \<and> (real (size_bytes file) / 1024 / 1024 > 10 \<or> extension file \<notin> {Inr ''xlsx'', Inr ''xls''})))"
proof (intro conjI impI)
  assume "files (input s) = []"
  then show "file_change s = Inr s" by (simp add: file_change_def)
next
  assume a: "files (input s) = file # rest \<and> \<not> real (size_bytes file) / 1024 / 1024 > 10
        \<and> extension file \<in> {Inr ''xlsx'', Inr ''xls''}"
  then have "size_check file s = s" by (simp add: size_check_def fileSize_def)
  moreover from a obtain ext where "extension file = Inr ext" "ext \<in> {''xlsx'', ''xls''}" by auto
  then have "ext_check file s = Inr s" by (rule ext_check_valid)
  ultimately show "file_change s = Inr s" using a by (simp add: file_change_some)
next
  assume b: "file_change s = Inr s' \<and> alerts s' \<noteq> alerts s"
  show "\<exists>file rest. files (input s) = file # rest
           \<and> (real (size_bytes file) / 1024 / 1024 > 10 \<or> extension file \<notin> {Inr ''xlsx'', Inr ''xls''})"
  proof (cases "files (input s)")
    case Nil
    with b show ?thesis by (auto simp: file_change_def)
  next
    case (Cons f fs)
    show ?thesis
    proof (rule ccontr)
      assume "\<not> ?thesis"
      with Cons have c: "\<not> real (size_bytes f) / 1024 / 1024 > 10" "extension f \<in> {Inr ''xlsx'', Inr ''xls''}"
        by auto
      then have "size_check f s = s" by (simp add: size_check_def fileSize_def)
      moreover from c obtain ext where "extension f = Inr ext" "ext \<in> {''xlsx'', ''xls''}" by auto
      then have "ext_check f s = Inr s" by (rule ext_check_valid)
      ultimately have "file_change s = Inr s" using Cons by (simp add: file_change_some)
      with b show False by auto
    qed
  qed
qed

theorem file_change_frame_witness:
  "file_change \<lparr>input = file_input [], alerts = []\<rparr> = Inr \<lparr>input = file_input [], alerts = []\<rparr>
   \<and> file_change \<lparr>input = file_input [\<lparr>name = ''members.xlsx'', size_bytes = 5 * MiB\<rparr>], alerts = []\<rparr>
       = Inr \<lparr>input = file_input [\<lparr>name = ''members.xlsx'', size_bytes = 5 * MiB\<rparr>], alerts = []\<rparr>"
proof -
  let ?f = "\<lparr>name = ''members.xlsx'', size_bytes = 5 * MiB\<rparr>"
  have 1: "files (input \<lparr>input = file_input [], alerts = []\<rparr>) = []"
    by (simp add: file_input_def blank_def)
  have 2: "files (input \<lparr>input = file_input [?f], alerts = []\<rparr>) = ?f # []
      \<and> \<not> real (size_bytes ?f) / 1024 / 1024 > 10 \<and> extension ?f \<in> {Inr ''xlsx'', Inr ''xls''}"
    by (simp add: file_input_def MiB_def extension_def pop_def toLowerCase_def lower_char_def
        upper_letters_def lower_letters_def)
  show ?thesis
    using file_change_frame [of "\<lparr>input = file_input [], alerts = []\<rparr>"] 1
      file_change_frame [of "\<lparr>input = file_input [?f], alerts = []\<rparr>" ?f "[]"] 2
    by blast
qed

lemma lower_char_x: "(lower_char c = CHR ''x'') = (c \<in> {CHR ''x'', CHR ''X''})"
  by (auto simp: lower_char_def upper_letters_def lower_letters_def split: if_splits)

lemma lower_char_l: "(lower_char c = CHR ''l'') = (c \<in> {CHR ''l'', CHR ''L''})"
  by (auto simp: lower_char_def upper_letters_def lower_letters_def split: if_splits)

lemma lower_char_s: "(lower_char c = CHR ''s'') = (c \<in> {CHR ''s'', CHR ''S''})"
  by (auto simp: lower_char_def upper_letters_def lower_letters_def split: if_splits)

lemma toLowerCase_xls:
  "(toLowerCase n = ''xls'') =
     (\<exists>a b c. n = [a, b, c] \<and> a \<in> {CHR ''x'', CHR ''X''} \<and> b \<in> {CHR ''l'', CHR ''L''}
        \<and> c \<in> {CHR ''s'', CHR ''S''})"
proof -
  have "(toLowerCase n = ''xls'') =
      (\<exists>a b c. n = [a, b, c] \<and> lower_char a = CHR ''x'' \<and> lower_char b = CHR ''l''
         \<and> lower_char c = CHR ''s'')"
    unfolding toLowerCase_def by (auto simp: map_eq_Cons_conv)
  then show ?thesis by (simp only: lower_char_x lower_char_l lower_char_s)
qed

lemma toLowerCase_xlsx:
  "(toLowerCase n = ''xlsx'') =
     (\<exists>a b c d. n = [a, b, c, d] \<and> a \<in> {CHR ''x'', CHR ''X''} \<and> b \<in> {CHR ''l'', CHR ''L''}
        \<and> c \<in> {CHR ''s'', CHR ''S''} \<and> d \<in> {CHR ''x'', CHR ''X''})"
proof -
  have "(toLowerCase n = ''xlsx'') =
      (\<exists>a b c d. n = [a, b, c, d] \<and> lower_char a = CHR ''x'' \<and> lower_char b = CHR ''l''
         \<and> lower_char c = CHR ''s'' \<and> lower_char d = CHR ''x'')"
    unfolding toLowerCase_def by (auto simp: map_eq_Cons_conv)
  then show ?thesis by (simp only: lower_char_x lower_char_l lower_char_s)
qed

lemma mem_pair: "(x \<in> {a, b}) = (x = a \<or> x = b)"
  by blast

lemma toLowerCase_accepted:
  "(toLowerCase n \<in> {''xlsx'', ''xls''}) =
     ((\<exists>a b c d. n = [a, b, c, d] \<and> a \<in> {CHR ''x'', CHR ''X''} \<and> b \<in> {CHR ''l'', CHR ''L''}
        \<and> c \<in> {CHR ''s'', CHR ''S''} \<and> d \<in> {CHR ''x'', CHR ''X''})
      \<or> (\<exists>a b c. n = [a, b, c] \<and> a \<in> {CHR ''x'', CHR ''X''} \<and> b \<in> {CHR ''l'', CHR ''L''}
        \<and> c \<in> {CHR ''s'', CHR ''S''}))"
proof -
  have "(toLowerCase n \<in> {''xlsx'', ''xls''}) = (toLowerCase n = ''xlsx'' \<or> toLowerCase n = ''xls'')"
    by (rule mem_pair)
  also have "\<dots> =
     ((\<exists>a b c d. n = [a, b, c, d] \<and> a \<in> {CHR ''x'', CHR ''X''} \<and> b \<in> {CHR ''l'', CHR ''L''}
        \<and> c \<in> {CHR ''s'', CHR ''S''} \<and> d \<in> {CHR ''x'', CHR ''X''})
      \<or> (\<exists>a b c. n = [a, b, c] \<and> a \<in> {CHR ''x'', CHR ''X''} \<and> b \<in> {CHR ''l'', CHR ''L''}
        \<and> c \<in> {CHR ''s'', CHR ''S''}))"
    by (subst toLowerCase_xlsx, subst toLowerCase_xls) (rule refl)
  finally show ?thesis .
qed

text \<open>
  C10 (as amended). For a file name without a dot, the extension the handler computes is
  the whole lower-cased name. The extension check passes exactly when the name is
  \<^verbatim>\<open>xlsx\<close> or \<^verbatim>\<open>xls\<close> with each letter in either case (\<^verbatim>\<open>xls\<close>, \<^verbatim>\<open>XLS\<close>,
  \<^verbatim>\<open>Xlsx\<close>, ...); for every other name without a dot it shows the extension message
  and clears the selection.
\<close>
theorem extension_of_dotless_name:
  assumes "CHR ''.'' \<notin> set (name file)"
  shows "extension file = Inr (toLowerCase (name file))
    \<and> (ext_check file s = Inr s) =
        ((\<exists>a b c d. name file = [a, b, c, d] \<and> a \<in> {CHR ''x'', CHR ''X''} \<and> b \<in> {CHR ''l'', CHR ''L''}
            \<and> c \<in> {CHR ''s'', CHR ''S''} \<and> d \<in> {CHR ''x'', CHR ''X''})
         \<or> (\<exists>a b c. name file = [a, b, c] \<and> a \<in> {CHR ''x'', CHR ''X''} \<and> b \<in> {CHR ''l'', CHR ''L''}
            \<and> c \<in> {CHR ''s'', CHR ''S''}))
    \<and> (ext_check file s = Inr (clear_value (alert ext_msg s))) =
        (\<not> ((\<exists>a b c d. name file = [a, b, c, d] \<and> a \<in> {CHR ''x'', CHR ''X''} \<and> b \<in> {CHR ''l'', CHR ''L''}
            \<and> c \<in> {CHR ''s'', CHR ''S''} \<and> d \<in> {CHR ''x'', CHR ''X''})
         \<or> (\<exists>a b c. name file = [a, b, c] \<and> a \<in> {CHR ''x'', CHR ''X''} \<and> b \<in> {CHR ''l'', CHR ''L''}
            \<and> c \<in> {CHR ''s'', CHR ''S''})))"
proof -
  define accepted where "accepted \<longleftrightarrow>
        ((\<exists>a b c d. name file = [a, b, c, d] \<and> a \<in> {CHR ''x'', CHR ''X''} \<and> b \<in> {CHR ''l'', CHR ''L''}
            \<and> c \<in> {CHR ''s'', CHR ''S''} \<and> d \<in> {CHR ''x'', CHR ''X''})
         \<or> (\<exists>a b c. name file = [a, b, c] \<and> a \<in> {CHR ''x'', CHR ''X''} \<and> b \<in> {CHR ''l'', CHR ''L''}
            \<and> c \<in> {CHR ''s'', CHR ''S''}))"
  have e: "extension file = Inr (toLowerCase (name file))"
    using assms by (rule extension_dotless)
  have v: "(toLowerCase (name file) \<in> {''xlsx'', ''xls''}) = accepted"
    unfolding accepted_def by (rule toLowerCase_accepted)
  have neq: "Inr (clear_value (alert ext_msg s)) \<noteq> (Inr s :: js_error + upload)"
    using clear_alert_neq [of ext_msg s] by simp
  have "extension file = Inr (toLowerCase (name file))
    \<and> (ext_check file s = Inr s) = accepted
    \<and> (ext_check file s = Inr (clear_value (alert ext_msg s))) = (\<not> accepted)"
  proof (cases accepted)
    case True
    with v have "toLowerCase (name file) \<in> {''xlsx'', ''xls''}" by blast
    with e have "ext_check file s = Inr s" by (rule ext_check_valid)
    with True e neq show ?thesis by simp
  next
    case False
    with v have "toLowerCase (name file) \<notin> {''xlsx'', ''xls''}" by blast
    with e have "ext_check file s = Inr (clear_value (alert ext_msg s))" by (rule ext_check_invalid)
    with False e neq show ?thesis by simp
  qed
  then show ?thesis unfolding accepted_def .
qed

theorem extension_of_dotless_name_witness:
  "ext_check \<lparr>name = ''XlS'', size_bytes = 1\<rparr> \<lparr>input = file_input [\<lparr>name = ''XlS'', size_bytes = 1\<rparr>], alerts = []\<rparr>
       = Inr \<lparr>input = file_input [\<lparr>name = ''XlS'', size_bytes = 1\<rparr>], alerts = []\<rparr>
   \<and> ext_check \<lparr>name = ''README'', size_bytes = 1\<rparr> \<lparr>input = file_input [\<lparr>name = ''README'', size_bytes = 1\<rparr>], alerts = []\<rparr>
       = Inr \<lparr>input = file_input [], alerts = [ext_msg]\<rparr>"
proof -
  let ?f = "\<lparr>name = ''XlS'', size_bytes = 1\<rparr>"
  let ?g = "\<lparr>name = ''README'', size_bytes = 1\<rparr>"
  let ?s = "\<lparr>input = file_input [?f], alerts = []\<rparr>"
  let ?t = "\<lparr>input = file_input [?g], alerts = []\<rparr>"
  have 1: "CHR ''.'' \<notin> set (name ?f)" and 2: "CHR ''.'' \<notin> set (name ?g)"
    by simp_all
  have acc: "(\<exists>a b c d. name ?f = [a, b, c, d] \<and> a \<in> {CHR ''x'', CHR ''X''} \<and> b \<in> {CHR ''l'', CHR ''L''}
            \<and> c \<in> {CHR ''s'', CHR ''S''} \<and> d \<in> {CHR ''x'', CHR ''X''})
         \<or> (\<exists>a b c. name ?f = [a, b, c] \<and> a \<in> {CHR ''x'', CHR ''X''} \<and> b \<in> {CHR ''l'', CHR ''L''}
            \<and> c \<in> {CHR ''s'', CHR ''S''})"
    by (rule disjI2, rule exI [of _ "CHR ''X''"], rule exI [of _ "CHR ''l''"],
        rule exI [of _ "CHR ''S''"]) simp
  have rej: "\<not> ((\<exists>a b c d. name ?g = [a, b, c, d] \<and> a \<in> {CHR ''x'', CHR ''X''} \<and> b \<in> {CHR ''l'', CHR ''L''}
            \<and> c \<in> {CHR ''s'', CHR ''S''} \<and> d \<in> {CHR ''x'', CHR ''X''})
         \<or> (\<exists>a b c. name ?g = [a, b, c] \<and> a \<in> {CHR ''x'', CHR ''X''} \<and> b \<in> {CHR ''l'', CHR ''L''}
            \<and> c \<in> {CHR ''s'', CHR ''S''}))"
    by simp
  have a: "ext_check ?f ?s = Inr ?s"
    by (rule iffD2 [OF extension_of_dotless_name [OF 1, of ?s, THEN conjunct2, THEN conjunct1] acc])
  have "ext_check ?g ?t = Inr (clear_value (alert ext_msg ?t))"
    by (rule iffD2 [OF extension_of_dotless_name [OF 2, of ?t, THEN conjunct2, THEN conjunct2] rej])
  also have "clear_value (alert ext_msg ?t) = \<lparr>input = file_input [], alerts = [ext_msg]\<rparr>"
    by (simp add: file_input_def clear_value_def alert_def)
  finally have b: "ext_check ?g ?t = Inr \<lparr>input = file_input [], alerts = [ext_msg]\<rparr>" .
  from a b show ?thesis by (rule conjI)
qed

text \<open>The name \<^verbatim>\<open>XLS\<close> has no dot and is neither \<^verbatim>\<open>xlsx\<close> nor \<^verbatim>\<open>xls\<close>, and the
  extension check lets it pass: no message, the selection kept.\<close>

theorem extension_of_dotless_name_counterexample:
  "CHR ''.'' \<notin> set ''XLS'' \<and> ''XLS'' \<notin> {''xlsx'', ''xls''}
   \<and> ext_check \<lparr>name = ''XLS'', size_bytes = 1\<rparr>
         \<lparr>input = file_input [\<lparr>name = ''XLS'', size_bytes = 1\<rparr>], alerts = []\<rparr>
       = Inr \<lparr>input = file_input [\<lparr>name = ''XLS'', size_bytes = 1\<rparr>], alerts = []\<rparr>"
  by (simp add: ext_check_def extension_def pop_def indexOf_def toLowerCase_def lower_char_def
      upper_letters_def lower_letters_def)

subsection \<open>Sidebar toggle\<close>

lemma hasClass_toggle1: "hasClass c (toggle1 d e) = (if c = d then \<not> hasClass c e else hasClass c e)"
  by (auto simp: toggle1_def hasClass_def addClass_def removeClass_def)

lemma hasClass_toggleClass_single: "hasClass c (toggleClass [c] e) = (\<not> hasClass c e)"
  by (simp add: toggleClass_def hasClass_toggle1)

lemma set_classList_toggle1:
  "set (classList (toggle1 d e)) = (if d \<in> set (classList e) then set (classList e) - {d} else insert d (set (classList e)))"
  by (auto simp: toggle1_def hasClass_def addClass_def removeClass_def)

lemma toggle1_twice_set: "set (classList (toggle1 d (toggle1 d e))) = set (classList e)"
  by (auto simp: set_classList_toggle1)

text \<open>
  C5 (as amended). A click on the sidebar control flips the presence of the class
  \<^verbatim>\<open>collapsed\<close> on the sidebar and on the content element, each on its own. So the two
  elements agree on the class after the click exactly when they agreed before it.
\<close>
theorem sidebarCollapse_click_flips_both:
  "hasClass ''collapsed'' (sidebar (sidebarCollapse_click p)) = (\<not> hasClass ''collapsed'' (sidebar p))
   \<and> hasClass ''collapsed'' (content (sidebarCollapse_click p)) = (\<not> hasClass ''collapsed'' (content p))
   \<and> (hasClass ''collapsed'' (sidebar (sidebarCollapse_click p))
        = hasClass ''collapsed'' (content (sidebarCollapse_click p)))
     = (hasClass ''collapsed'' (sidebar p) = hasClass ''collapsed'' (content p))"
  by (auto simp add: sidebarCollapse_click_def hasClass_toggleClass_single)

text \<open>With the class on the sidebar only, the two elements disagree after the click.\<close>

theorem sidebarCollapse_click_counterexample:
  "hasClass ''collapsed'' (sidebar (sidebarCollapse_click
       \<lparr>sidebar = div_with [''collapsed''], content = div_with []\<rparr>))
   \<noteq> hasClass ''collapsed'' (content (sidebarCollapse_click
       \<lparr>sidebar = div_with [''collapsed''], content = div_with []\<rparr>))"
  by (simp add: sidebarCollapse_click_def toggleClass_def toggle1_def hasClass_def addClass_def
      removeClass_def div_with_def blank_def)

subsection \<open>DataTables initialisation\<close>

lemma init_table_enhanced:
  "\<forall>opts w. isDataTable lib (DataTable lib opts w) \<Longrightarrow> isDataTable lib (widget (init_table lib t))"
  by (simp add: init_table_def)

lemma init_table_enhancements:
  "enhancements (init_table lib t) =
     enhancements t @ (if isDataTable lib (widget t) then [] else [table_options])"
  by (simp add: init_table_def)

lemma init_table_skip: "isDataTable lib (widget t) \<Longrightarrow> init_table lib t = t"
  by (simp add: init_table_def)

lemma init_table_idem:
  "\<forall>opts w. isDataTable lib (DataTable lib opts w) \<Longrightarrow>
     init_table lib (init_table lib t) = init_table lib t"
  by (rule init_table_skip) (rule init_table_enhanced)

lemma init_tables_idem:
  "\<forall>opts w. isDataTable lib (DataTable lib opts w) \<Longrightarrow>
     init_tables lib (init_tables lib tables) = init_tables lib tables"
  by (simp add: init_tables_def init_table_idem)

lemma init_tables_funpow:
  "\<forall>opts w. isDataTable lib (DataTable lib opts w) \<Longrightarrow>
     (init_tables lib ^^ Suc n) tables = init_tables lib tables"
  by (induction n) (simp_all add: init_tables_idem)

text \<open>
  C6. With a plug-in that reports a table as a DataTable once \<^verbatim>\<open>.DataTable\<close> has been
  called on it, running the initialiser any number of times (at least once) has the
  effect of running it once: afterwards every table is a DataTable, a table that was not
  one before has received exactly one \<^verbatim>\<open>.DataTable\<close> call, with the script's options,
  and a table that already was one has received none.
\<close>
theorem init_tables_enhances_once:
  assumes "\<forall>opts w. isDataTable lib (DataTable lib opts w)"
    and "0 < n"
    and "i < length tables"
  shows "(init_tables lib ^^ n) tables = init_tables lib tables
    \<and> length (init_tables lib tables) = length tables
    \<and> isDataTable lib (widget ((init_tables lib ^^ n) tables ! i))
    \<and> enhancements ((init_tables lib ^^ n) tables ! i) =
        enhancements (tables ! i) @ (if isDataTable lib (widget (tables ! i)) then [] else [table_options])"
proof -
  from assms(2) obtain m where n: "n = Suc m" by (cases n) auto
  have run: "(init_tables lib ^^ n) tables = init_tables lib tables"
    unfolding n using assms(1) by (rule init_tables_funpow)
  have nth: "init_tables lib tables ! i = init_table lib (tables ! i)"
    using assms(3) by (simp add: init_tables_def)
  show ?thesis
    unfolding run nth
    using assms(1) by (simp add: init_tables_def init_table_enhanced init_table_enhancements)
qed

theorem init_tables_enhances_once_witness:
  "enhancements ((init_tables stub_datatables ^^ 3)
      [\<lparr>widget = False, enhancements = []\<rparr>, \<lparr>widget = True, enhancements = []\<rparr>] ! 0) = [table_options]
   \<and> enhancements ((init_tables stub_datatables ^^ 3)
      [\<lparr>widget = False, enhancements = []\<rparr>, \<lparr>widget = True, enhancements = []\<rparr>] ! 1) = []"
proof -
  let ?ts = "[\<lparr>widget = False, enhancements = []\<rparr>, \<lparr>widget = True, enhancements = []\<rparr>]"
  let ?run = "(init_tables stub_datatables ^^ 3) ?ts"
  have c: "\<forall>opts w. isDataTable stub_datatables (DataTable stub_datatables opts w)"
    by (simp add: stub_datatables_def)
  have n: "0 < (3::nat)" by simp
  have 0: "0 < length ?ts" and 1: "1 < length ?ts" by simp_all
  have "enhancements (?run ! 0) = enhancements (?ts ! 0) @
      (if isDataTable stub_datatables (widget (?ts ! 0)) then [] else [table_options])"
    using init_tables_enhances_once [OF c n 0] by blast
  also have "\<dots> = [table_options]"
    by (simp add: stub_datatables_def)
  finally have first: "enhancements (?run ! 0) = [table_options]" .
  have "enhancements (?run ! 1) = enhancements (?ts ! 1) @
      (if isDataTable stub_datatables (widget (?ts ! 1)) then [] else [table_options])"
    using init_tables_enhances_once [OF c n 1] by blast
  also have "\<dots> = []"
    by (simp add: stub_datatables_def)
  finally have second: "enhancements (?run ! 1) = []" .
  from first second show ?thesis by (rule conjI)
qed

subsection \<open>Insurance code inputs\<close>

lemma upper_char_not_lower: "upper_char c \<notin> set lower_letters"
  by (simp add: upper_char_def lower_letters_def upper_letters_def)

lemma ascii_toUpperCase_no_lower: "set (ascii_toUpperCase s) \<inter> set lower_letters = {}"
  using upper_char_not_lower by (auto simp: ascii_toUpperCase_def)

lemma insuranceCode_input_idem:
  "\<forall>s. toUpperCase (toUpperCase s) = toUpperCase s \<Longrightarrow>
     insuranceCode_input toUpperCase (insuranceCode_input toUpperCase this)
       = insuranceCode_input toUpperCase this"
  by (simp add: insuranceCode_input_def)

text \<open>
  C8. Whatever the built-in \<^verbatim>\<open>toUpperCase\<close> computes, after the input handler has run
  the value of the insurance code field is the \<^verbatim>\<open>toUpperCase\<close> of the value it held
  before, for every value; and nothing else of the field has changed.
\<close>
theorem insuranceCode_input_value:
  "val (insuranceCode_input toUpperCase this) = toUpperCase (val this)
   \<and> localName (insuranceCode_input toUpperCase this) = localName this
   \<and> attributes (insuranceCode_input toUpperCase this) = attributes this
   \<and> classList (insuranceCode_input toUpperCase this) = classList this
   \<and> disabled (insuranceCode_input toUpperCase this) = disabled this
   \<and> innerHTML (insuranceCode_input toUpperCase this) = innerHTML this
   \<and> files (insuranceCode_input toUpperCase this) = files this"
  by (simp add: insuranceCode_input_def)

theorem insuranceCode_input_value_witness:
  "val (insuranceCode_input ascii_toUpperCase (blank\<lparr>localName := ''input'', val := ''ab-12 cZ''\<rparr>))
     = ''AB-12 CZ''"
proof -
  have "val (insuranceCode_input ascii_toUpperCase (blank\<lparr>localName := ''input'', val := ''ab-12 cZ''\<rparr>))
      = ascii_toUpperCase (val (blank\<lparr>localName := ''input'', val := ''ab-12 cZ''\<rparr>))"
    using insuranceCode_input_value
      [of ascii_toUpperCase "blank\<lparr>localName := ''input'', val := ''ab-12 cZ''\<rparr>"]
    by (rule conjunct1)
  also have "\<dots> = ''AB-12 CZ''"
    by (simp add: ascii_toUpperCase_def upper_char_def upper_letters_def lower_letters_def)
  finally show ?thesis .
qed

subsection \<open>Form submission\<close>



subsection \<open>Password visibility\<close>














end
